theory Spec2Isabelle
  imports Main
begin

section \<open>Go values\<close>

text \<open>
  A Go string is read as the sequence of runes that \<^verbatim>\<open>range s\<close> yields (Unicode code
  points; an invalid byte counts as U+FFFD, which is what \<^verbatim>\<open>strings.ToLower\<close> writes for
  it as well). Two valid UTF-8 strings are equal as bytes exactly when their rune sequences
  are equal. String constants of the source are all ASCII and are written as HOL literals.
\<close>

type_synonym rune = nat
type_synonym gostring = "rune list"

definition str :: "string \<Rightarrow> gostring" where
  "str s = map of_char s"

text \<open>\<^verbatim>\<open>time.Time\<close>: the zero value, or an instant read from the clock.\<close>

datatype time = ZeroTime | At nat

text \<open>
  \<^verbatim>\<open>unicode.IsSpace\<close>: the Latin-1 switch of the standard library, then the White_Space
  ranges above Latin-1.
\<close>

definition IsSpace :: "rune \<Rightarrow> bool" where
  "IsSpace r =
     (if r \<le> 0xFF then r \<in> {0x09, 0x0A, 0x0B, 0x0C, 0x0D, 0x20, 0x85, 0xA0}
      else r = 0x1680 \<or> (0x2000 \<le> r \<and> r \<le> 0x200A) \<or> r = 0x2028 \<or> r = 0x2029
           \<or> r = 0x202F \<or> r = 0x205F \<or> r = 0x3000)"

text \<open>\<^verbatim>\<open>strings.TrimSpace\<close>: drop the leading and the trailing white space.\<close>

definition TrimSpace :: "gostring \<Rightarrow> gostring" where
  "TrimSpace s = rev (dropWhile IsSpace (rev (dropWhile IsSpace s)))"

text \<open>
  \<^verbatim>\<open>unicode.ToLower\<close>: the ASCII branch is the library's code; above ASCII the library
  consults the Unicode case tables, which are taken as the parameter \<open>tbl\<close>.
  \<^verbatim>\<open>strings.ToLower\<close> maps it over the runes.
\<close>

definition unicode_ToLower :: "(rune \<Rightarrow> rune) \<Rightarrow> rune \<Rightarrow> rune" where
  "unicode_ToLower tbl r =
     (if r \<le> 0x7F then (if 0x41 \<le> r \<and> r \<le> 0x5A then r + 0x20 else r) else tbl r)"

definition ToLower :: "(rune \<Rightarrow> rune) \<Rightarrow> gostring \<Rightarrow> gostring" where
  "ToLower tbl s = map (unicode_ToLower tbl) s"

text \<open>
  What the theorems on repeated normalisation need of a case table: lower-casing a
  lower-cased rune changes nothing, and lower-casing neither makes nor removes white space.
\<close>

definition case_table_ok :: "(rune \<Rightarrow> rune) \<Rightarrow> bool" where
  "case_table_ok tbl \<longleftrightarrow>
     (\<forall>r. unicode_ToLower tbl (unicode_ToLower tbl r) = unicode_ToLower tbl r
          \<and> IsSpace (unicode_ToLower tbl r) = IsSpace r)"

text \<open>The Latin-1 part of the Unicode table (U+00C0 .. U+00DE without the sign U+00D7).\<close>

definition latin1_lower :: "rune \<Rightarrow> rune" where
  "latin1_lower r = (if 0xC0 \<le> r \<and> r \<le> 0xDE \<and> r \<noteq> 0xD7 then r + 0x20 else r)"

section \<open>package domain\<close>

record User =
  ID :: nat
  Nombre :: gostring
  Apellido :: gostring
  Email :: gostring
  Reparto :: gostring
  CreatedAt :: time
  UpdatedAt :: time

section \<open>Errors\<close>

text \<open>
  The values of Go's \<^verbatim>\<open>error\<close> that occur: what the JSON decoder or the validator of the
  binding reports, and what the database reports.
\<close>

datatype FieldError = FieldError string string

datatype error =
    ErrDecode gostring
  | ErrValidation "FieldError list"
  | ErrUnavailable gostring
  | ErrUniqueEmail
  | ErrPrimaryKey

definition quoted :: "string \<Rightarrow> string" where
  "quoted s = CHR 0x27 # s @ [CHR 0x27]"

fun fieldErrMsg :: "FieldError \<Rightarrow> string" where
  "fieldErrMsg (FieldError f t) =
     ''Key: '' @ quoted (''createUserRequest.'' @ f) @ '' Error:Field validation for ''
       @ quoted f @ '' failed on the '' @ quoted t @ '' tag''"

fun joinLines :: "string list \<Rightarrow> string" where
  "joinLines [] = []"
| "joinLines [l] = l"
| "joinLines (l # ls) = l @ [CHR 0x0A] @ joinLines ls"

fun Error :: "error \<Rightarrow> gostring" where
  "Error (ErrDecode m) = m"
| "Error (ErrValidation es) = str (joinLines (map fieldErrMsg es))"
| "Error (ErrUnavailable m) = m"
| "Error ErrUniqueEmail = str ''UNIQUE constraint failed: users.email''"
| "Error ErrPrimaryKey = str ''UNIQUE constraint failed: users.id''"

section \<open>The database behind \<^verbatim>\<open>*gorm.DB\<close>\<close>

text \<open>
  The table \<^verbatim>\<open>users\<close> that \<^verbatim>\<open>AutoMigrate(&domain.User{})\<close> creates from the struct tags:
  \<^verbatim>\<open>primaryKey;autoIncrement\<close> on \<open>ID\<close> and \<^verbatim>\<open>uniqueIndex\<close> on \<open>Email\<close>.
  \<open>seq\<close> is the largest id handed out so far, \<open>fault\<close> the failure (lost connection,
  I/O error) with which the database currently answers every statement, \<open>now\<close> the clock
  that stamps new rows.
\<close>

record DB =
  rows :: "User list"
  seq :: nat
  fault :: "error option"
  now :: nat

definition stamp :: "nat \<Rightarrow> time \<Rightarrow> time" where
  "stamp t v = (case v of ZeroTime \<Rightarrow> At t | At x \<Rightarrow> At x)"

text \<open>
  \<^verbatim>\<open>db.Create(user).Error\<close>: one INSERT. A zero id is assigned by the auto-increment, zero
  timestamps are set to the clock; a violated constraint or a fault fails the statement
  and leaves the table as it was. (gorm also writes the id and the timestamps back through
  the pointer; the one caller drops the struct, so only the error is returned here.)
\<close>

definition Create :: "User \<Rightarrow> DB \<Rightarrow> error option \<times> DB" where
  "Create u db =
     (case fault db of
        Some e \<Rightarrow> (Some e, db)
      | None \<Rightarrow>
          (let i = (if ID u = 0 then seq db + 1 else ID u) in
           if i \<in> set (map ID (rows db)) then (Some ErrPrimaryKey, db)
           else if Email u \<in> set (map Email (rows db)) then (Some ErrUniqueEmail, db)
           else (None,
                 db\<lparr>rows := rows db @
                        [u\<lparr>ID := i,
                           CreatedAt := stamp (now db) (CreatedAt u),
                           UpdatedAt := stamp (now db) (UpdatedAt u)\<rparr>],
                    seq := max (seq db) i\<rparr>)))"

text \<open>
  \<^verbatim>\<open>db.Find(&users).Error\<close>: one unfiltered SELECT. The slice stays \<^verbatim>\<open>nil\<close> (\<open>None\<close>)
  when the statement fails; otherwise gorm allocates it, also for zero rows.
\<close>

definition Find :: "DB \<Rightarrow> (User list option \<times> error option) \<times> DB" where
  "Find db =
     (case fault db of
        Some e \<Rightarrow> ((None, Some e), db)
      | None \<Rightarrow> ((Some (rows db), None), db))"

section \<open>package repository\<close>

text \<open>The interface \<^verbatim>\<open>UserRepository\<close>; \<open>'st\<close> is whatever state an implementation keeps.\<close>

record 'st UserRepository =
  repo_CreateUser :: "User \<Rightarrow> 'st \<Rightarrow> error option \<times> 'st"
  repo_GetAllUsers :: "'st \<Rightarrow> (User list option \<times> error option) \<times> 'st"

definition userRepository_CreateUser :: "User \<Rightarrow> DB \<Rightarrow> error option \<times> DB" where
  "userRepository_CreateUser user db = Create user db"

definition userRepository_GetAllUsers :: "DB \<Rightarrow> (User list option \<times> error option) \<times> DB" where
  "userRepository_GetAllUsers db = (case Find db of ((users, err), db') \<Rightarrow> ((users, err), db'))"

definition NewUserRepository :: "DB UserRepository" where
  "NewUserRepository =
     \<lparr>repo_CreateUser = userRepository_CreateUser,
      repo_GetAllUsers = userRepository_GetAllUsers\<rparr>"

section \<open>package service\<close>

record 'st UserService =
  svc_CreateUser :: "gostring \<Rightarrow> gostring \<Rightarrow> gostring \<Rightarrow> gostring \<Rightarrow> 'st \<Rightarrow> error option \<times> 'st"
  svc_GetAllUsers :: "'st \<Rightarrow> (User list option \<times> error option) \<times> 'st"

definition userService_CreateUser ::
  "(rune \<Rightarrow> rune) \<Rightarrow> 'st UserRepository \<Rightarrow>
     gostring \<Rightarrow> gostring \<Rightarrow> gostring \<Rightarrow> gostring \<Rightarrow> 'st \<Rightarrow> error option \<times> 'st" where
  "userService_CreateUser tbl repo nombre apellido email reparto st =
     (let u = \<lparr>ID = 0,
               Nombre = TrimSpace nombre,
               Apellido = TrimSpace apellido,
               Email = ToLower tbl (TrimSpace email),
               Reparto = TrimSpace reparto,
               CreatedAt = ZeroTime,
               UpdatedAt = ZeroTime\<rparr>
      in case repo_CreateUser repo u st of
           (Some err, st') \<Rightarrow> (Some err, st')
         | (None, st') \<Rightarrow> (None, st'))"

definition userService_GetAllUsers ::
  "'st UserRepository \<Rightarrow> 'st \<Rightarrow> (User list option \<times> error option) \<times> 'st" where
  "userService_GetAllUsers repo st = repo_GetAllUsers repo st"

definition NewUserService :: "(rune \<Rightarrow> rune) \<Rightarrow> 'st UserRepository \<Rightarrow> 'st UserService" where
  "NewUserService tbl repo =
     \<lparr>svc_CreateUser = userService_CreateUser tbl repo,
      svc_GetAllUsers = userService_GetAllUsers repo\<rparr>"

section \<open>package handlers\<close>

text \<open>
  What \<^verbatim>\<open>c.JSON\<close> writes: a status and the JSON document of the value it is given.
  A time is the document's RFC 3339 string of that instant.
\<close>

datatype json =
    JNull
  | JStr gostring
  | JNum nat
  | JTime time
  | JArr "json list"
  | JObj "(string \<times> json) list"

record response =
  status :: nat
  body :: json

definition H :: "string \<Rightarrow> gostring \<Rightarrow> json" where
  "H k v = JObj [(k, JStr v)]"

definition user_json :: "User \<Rightarrow> json" where
  "user_json u =
     JObj [(''id'', JNum (ID u)),
           (''nombre'', JStr (Nombre u)),
           (''apellido'', JStr (Apellido u)),
           (''email'', JStr (Email u)),
           (''reparto'', JStr (Reparto u)),
           (''created_at'', JTime (CreatedAt u)),
           (''updated_at'', JTime (UpdatedAt u))]"

text \<open>A \<^verbatim>\<open>nil\<close> slice is written as \<^verbatim>\<open>null\<close>, an allocated one as an array.\<close>

definition users_json :: "User list option \<Rightarrow> json" where
  "users_json us = (case us of None \<Rightarrow> JNull | Some xs \<Rightarrow> JArr (map user_json xs))"

record createUserRequest =
  req_Nombre :: gostring
  req_Apellido :: gostring
  req_Email :: gostring
  req_Reparto :: gostring

text \<open>
  The request body as the JSON decoder of the binding sees it: rejected with the decoder's
  message, or decoded into the struct, where an absent key leaves the field empty.
\<close>

datatype bodyJSON = Undecodable gostring | Decoded createUserRequest

text \<open>
  The \<^verbatim>\<open>binding\<close> tags. \<^verbatim>\<open>required\<close> rejects the zero value of the field, the empty
  string; the pattern behind \<^verbatim>\<open>email\<close> belongs to the validator library and is the
  parameter \<open>isEmail\<close>. A field reports its first failing tag, and every field is checked.
\<close>

definition required :: "gostring \<Rightarrow> bool" where
  "required v \<longleftrightarrow> v \<noteq> []"

fun checkTags :: "string \<Rightarrow> (string \<times> (gostring \<Rightarrow> bool)) list \<Rightarrow> gostring \<Rightarrow> FieldError list" where
  "checkTags f [] v = []"
| "checkTags f ((tag, ok) # ts) v = (if ok v then checkTags f ts v else [FieldError f tag])"

definition validateStruct :: "(gostring \<Rightarrow> bool) \<Rightarrow> createUserRequest \<Rightarrow> FieldError list" where
  "validateStruct isEmail req =
     checkTags ''Nombre'' [(''required'', required)] (req_Nombre req)
     @ checkTags ''Apellido'' [(''required'', required)] (req_Apellido req)
     @ checkTags ''Email'' [(''required'', required), (''email'', isEmail)] (req_Email req)
     @ checkTags ''Reparto'' [(''required'', required)] (req_Reparto req)"

definition ShouldBindJSON :: "(gostring \<Rightarrow> bool) \<Rightarrow> bodyJSON \<Rightarrow> error + createUserRequest" where
  "ShouldBindJSON isEmail b =
     (case b of
        Undecodable m \<Rightarrow> Inl (ErrDecode m)
      | Decoded req \<Rightarrow>
          (case validateStruct isEmail req of
             [] \<Rightarrow> Inr req
           | e # es \<Rightarrow> Inl (ErrValidation (e # es))))"

text \<open>
  A handler reads the request body and the state and writes one response. The struct
  \<^verbatim>\<open>UserHandler\<close> holds the service and nothing else, so a handler method takes the
  service itself.
\<close>

type_synonym 'st HandlerFunc = "bodyJSON \<Rightarrow> 'st \<Rightarrow> response \<times> 'st"

definition UserHandler_CreateUser :: "(gostring \<Rightarrow> bool) \<Rightarrow> 'st UserService \<Rightarrow> 'st HandlerFunc" where
  "UserHandler_CreateUser isEmail svc b st =
     (case ShouldBindJSON isEmail b of
        Inl err \<Rightarrow> (\<lparr>status = 400, body = H ''error'' (Error err)\<rparr>, st)
      | Inr req \<Rightarrow>
          (case svc_CreateUser svc (req_Nombre req) (req_Apellido req) (req_Email req)
                  (req_Reparto req) st of
             (Some err, st') \<Rightarrow>
               (\<lparr>status = 500, body = H ''error'' (str ''no se pudo crear el usuario'')\<rparr>, st')
           | (None, st') \<Rightarrow>
               (\<lparr>status = 201, body = H ''message'' (str ''usuario creado exitosamente'')\<rparr>, st')))"

definition UserHandler_ListUsers :: "'st UserService \<Rightarrow> 'st HandlerFunc" where
  "UserHandler_ListUsers svc b st =
     (case svc_GetAllUsers svc st of
        ((users, Some err), st') \<Rightarrow>
          (\<lparr>status = 500, body = H ''error'' (str ''no se pudo obtener usuarios'')\<rparr>, st')
      | ((users, None), st') \<Rightarrow> (\<lparr>status = 200, body = users_json users\<rparr>, st'))"

definition RegisterRoutes ::
  "(gostring \<Rightarrow> bool) \<Rightarrow> 'st UserService \<Rightarrow> string \<Rightarrow> ((string \<times> string) \<times> 'st HandlerFunc) list" where
  "RegisterRoutes isEmail svc base =
     [((''POST'', base @ ''/usuarios''), UserHandler_CreateUser isEmail svc),
      ((''GET'', base @ ''/usuarios''), UserHandler_ListUsers svc)]"

section \<open>package http\<close>

definition health :: "'st HandlerFunc" where
  "health b st = (\<lparr>status = 200, body = H ''status'' (str ''ok'')\<rparr>, st)"

text \<open>The routes that \<^verbatim>\<open>NewServer\<close> registers, and the handler of a registered route.\<close>

definition NewServer ::
  "(gostring \<Rightarrow> bool) \<Rightarrow> 'st UserService \<Rightarrow> ((string \<times> string) \<times> 'st HandlerFunc) list" where
  "NewServer isEmail svc =
     ((''GET'', ''/health''), health) # RegisterRoutes isEmail svc ''/api/v1''"

definition route ::
  "((string \<times> string) \<times> 'st HandlerFunc) list \<Rightarrow> string \<Rightarrow> string \<Rightarrow> 'st HandlerFunc option" where
  "route rs m p = map_of rs (m, p)"

section \<open>The wiring of \<^verbatim>\<open>main\<close>\<close>

definition app :: "(gostring \<Rightarrow> bool) \<Rightarrow> (rune \<Rightarrow> rune) \<Rightarrow> ((string \<times> string) \<times> DB HandlerFunc) list" where
  "app isEmail tbl = NewServer isEmail (NewUserService tbl NewUserRepository)"

text \<open>
  A run of the process from the freshly migrated table: calls of the service's create,
  and changes of the world outside (the database failing or recovering, time passing).
\<close>

datatype event =
    CreateCall gostring gostring gostring gostring
  | Outage "error option"
  | Tick nat

definition fresh :: "error option \<Rightarrow> nat \<Rightarrow> DB" where
  "fresh f t = \<lparr>rows = [], seq = 0, fault = f, now = t\<rparr>"

fun step :: "(rune \<Rightarrow> rune) \<Rightarrow> event \<Rightarrow> DB \<Rightarrow> DB" where
  "step tbl (CreateCall n a e r) db = snd (userService_CreateUser tbl NewUserRepository n a e r db)"
| "step tbl (Outage f) db = db\<lparr>fault := f\<rparr>"
| "step tbl (Tick t) db = db\<lparr>now := t\<rparr>"

fun run :: "(rune \<Rightarrow> rune) \<Rightarrow> event list \<Rightarrow> DB \<Rightarrow> DB" where
  "run tbl [] db = db"
| "run tbl (ev # evs) db = run tbl evs (step tbl ev db)"

text \<open>
  The state of the table that every run keeps: ids and emails are pairwise different, every
  id is positive and at most \<open>seq\<close>, and every stored email is the lower-cased trimmed form
  of some submitted text.
\<close>

definition store_inv :: "(rune \<Rightarrow> rune) \<Rightarrow> DB \<Rightarrow> bool" where
  "store_inv tbl db \<longleftrightarrow>
     distinct (map Email (rows db)) \<and> distinct (map ID (rows db))
     \<and> (\<forall>u\<in>set (rows db). 0 < ID u \<and> ID u \<le> seq db
            \<and> (\<exists>e. Email u = ToLower tbl (TrimSpace e)))"

text \<open>
  A stand-in for the validator's email pattern in the worked examples: one \<^verbatim>\<open>@\<close> with text
  on both sides and no white space.
\<close>

definition sample_isEmail :: "gostring \<Rightarrow> bool" where
  "sample_isEmail s \<longleftrightarrow>
     (let l = takeWhile (\<lambda>r. r \<noteq> 0x40) s; d = dropWhile (\<lambda>r. r \<noteq> 0x40) s
      in l \<noteq> [] \<and> 1 < length d \<and> 0x40 \<notin> set (tl d) \<and> \<not> list_ex IsSpace s)"

section \<open>Trimming and lower-casing\<close>

lemma dropWhile_end_self:
  "xs = [] \<or> \<not> P (last xs) \<Longrightarrow> rev (dropWhile P (rev xs)) = xs"
  by (cases xs rule: rev_cases) auto

lemma dropWhile_end_keeps_hd:
  "xs \<noteq> [] \<Longrightarrow> \<not> P (hd xs) \<Longrightarrow>
     rev (dropWhile P (rev xs)) \<noteq> [] \<and> hd (rev (dropWhile P (rev xs))) = hd xs"
  by (induction xs rule: rev_induct) (auto simp: hd_append)

lemma dropWhile_end_last:
  "rev (dropWhile P (rev xs)) \<noteq> [] \<Longrightarrow> \<not> P (last (rev (dropWhile P (rev xs))))"
  by (induction xs rule: rev_induct) auto

lemma dropWhile_end_all:
  "\<forall>x\<in>set ws. P x \<Longrightarrow> rev (dropWhile P (rev (xs @ ws))) = rev (dropWhile P (rev xs))"
  by (induction ws rule: rev_induct) (auto simp flip: append_assoc)

lemma dropWhile_all:
  "\<forall>x\<in>set ws. P x \<Longrightarrow> dropWhile P (ws @ xs) = dropWhile P xs"
  by (induction ws) auto

lemma dropWhile_Nil: "\<forall>x\<in>set s. P x \<Longrightarrow> dropWhile P s = []"
  by simp

lemma TrimSpace_shape:
  "TrimSpace s = [] \<or> (\<not> IsSpace (hd (TrimSpace s)) \<and> \<not> IsSpace (last (TrimSpace s)))"
proof (cases "dropWhile IsSpace s = []")
  case True
  then have "TrimSpace s = []" unfolding TrimSpace_def by (simp only: rev.simps dropWhile.simps)
  then show ?thesis ..
next
  case False
  let ?d = "dropWhile IsSpace s"
  have h: "\<not> IsSpace (hd ?d)" using False by (rule hd_dropWhile)
  have k: "rev (dropWhile IsSpace (rev ?d)) \<noteq> [] \<and> hd (rev (dropWhile IsSpace (rev ?d))) = hd ?d"
    using False h by (rule dropWhile_end_keeps_hd)
  then have "\<not> IsSpace (last (rev (dropWhile IsSpace (rev ?d))))"
    using dropWhile_end_last [of IsSpace ?d] by blast
  with k h show ?thesis unfolding TrimSpace_def by metis
qed

lemma TrimSpace_fixed:
  assumes "s = [] \<or> (\<not> IsSpace (hd s) \<and> \<not> IsSpace (last s))"
  shows "TrimSpace s = s"
proof -
  have a: "dropWhile IsSpace s = s" using assms by (cases s) auto
  have b: "rev (dropWhile IsSpace (rev s)) = s"
    using assms by (intro dropWhile_end_self) blast
  show ?thesis unfolding TrimSpace_def a b ..
qed

lemma TrimSpace_idem: "TrimSpace (TrimSpace s) = TrimSpace s"
  by (rule TrimSpace_fixed) (rule TrimSpace_shape)

lemma TrimSpace_pad:
  assumes "\<forall>x\<in>set pre. IsSpace x" "\<forall>x\<in>set post. IsSpace x"
  shows "TrimSpace (pre @ c @ post) = TrimSpace c"
proof -
  have a: "dropWhile IsSpace (pre @ c @ post) = dropWhile IsSpace (c @ post)"
    using assms(1) by (rule dropWhile_all)
  show ?thesis
  proof (cases "\<forall>x\<in>set c. IsSpace x")
    case True
    then have "\<forall>x\<in>set (c @ post). IsSpace x" using assms(2) by auto
    then have "dropWhile IsSpace (c @ post) = []" by (rule dropWhile_Nil)
    moreover have "dropWhile IsSpace c = []" using True by (rule dropWhile_Nil)
    ultimately show ?thesis unfolding TrimSpace_def a by (simp only:)
  next
    case False
    then obtain x where "x \<in> set c" "\<not> IsSpace x" by blast
    then have "dropWhile IsSpace (c @ post) = dropWhile IsSpace c @ post"
      by (rule dropWhile_append1)
    then show ?thesis unfolding TrimSpace_def a
      using dropWhile_end_all [OF assms(2), of "dropWhile IsSpace c"] by simp
  qed
qed

lemma TrimSpace_all_space: "\<forall>x\<in>set s. IsSpace x \<Longrightarrow> TrimSpace s = []"
  unfolding TrimSpace_def by (simp only: dropWhile_Nil rev.simps dropWhile.simps)

lemma ToLower_idem: "case_table_ok tbl \<Longrightarrow> ToLower tbl (ToLower tbl s) = ToLower tbl s"
  by (simp add: ToLower_def case_table_ok_def)

lemma dropWhile_ToLower:
  "case_table_ok tbl \<Longrightarrow> dropWhile IsSpace (ToLower tbl s) = ToLower tbl (dropWhile IsSpace s)"
  by (induction s) (auto simp: ToLower_def case_table_ok_def)

lemma TrimSpace_ToLower:
  assumes "case_table_ok tbl"
  shows "TrimSpace (ToLower tbl s) = ToLower tbl (TrimSpace s)"
proof -
  have r: "rev (ToLower tbl xs) = ToLower tbl (rev xs)" for xs
    by (simp add: ToLower_def rev_map)
  show ?thesis
    unfolding TrimSpace_def
    by (simp only: dropWhile_ToLower [OF assms] r)
qed

lemma case_table_ok_latin1: "case_table_ok latin1_lower"
  unfolding case_table_ok_def unicode_ToLower_def latin1_lower_def IsSpace_def
  by auto

section \<open>The service's create and list\<close>

text \<open>
  C1. Whatever the repository behind the service is, the service's CreateUser calls its
  create with exactly this User: Nombre, Apellido and Reparto are the trimmed inputs,
  Email is the lower-cased trimmed input, and ID and both timestamps are zero. The
  outcome of the call is the outcome of that repository call.
\<close>

theorem service_create_passes_normalized_user:
  "userService_CreateUser tbl repo nombre apellido email reparto st =
     repo_CreateUser repo
       \<lparr>ID = 0,
        Nombre = TrimSpace nombre,
        Apellido = TrimSpace apellido,
        Email = ToLower tbl (TrimSpace email),
        Reparto = TrimSpace reparto,
        CreatedAt = ZeroTime,
        UpdatedAt = ZeroTime\<rparr> st"
  by (simp add: userService_CreateUser_def split: prod.splits option.splits)

text \<open>
  C6. The service's CreateUser returns exactly the error of the repository's create, for
  every repository and state: nothing is wrapped, translated or checked in addition, the
  state is the one the repository leaves, and no error is returned exactly when the
  repository returned none.
\<close>

theorem service_create_propagates_error:
  "fst (userService_CreateUser tbl repo nombre apellido email reparto st) =
     fst (repo_CreateUser repo
            \<lparr>ID = 0, Nombre = TrimSpace nombre, Apellido = TrimSpace apellido,
             Email = ToLower tbl (TrimSpace email), Reparto = TrimSpace reparto,
             CreatedAt = ZeroTime, UpdatedAt = ZeroTime\<rparr> st)
   \<and> snd (userService_CreateUser tbl repo nombre apellido email reparto st) =
     snd (repo_CreateUser repo
            \<lparr>ID = 0, Nombre = TrimSpace nombre, Apellido = TrimSpace apellido,
             Email = ToLower tbl (TrimSpace email), Reparto = TrimSpace reparto,
             CreatedAt = ZeroTime, UpdatedAt = ZeroTime\<rparr> st)
   \<and> (fst (userService_CreateUser tbl repo nombre apellido email reparto st) = None) =
     (fst (repo_CreateUser repo
            \<lparr>ID = 0, Nombre = TrimSpace nombre, Apellido = TrimSpace apellido,
             Email = ToLower tbl (TrimSpace email), Reparto = TrimSpace reparto,
             CreatedAt = ZeroTime, UpdatedAt = ZeroTime\<rparr> st) = None)"
  by (simp add: userService_CreateUser_def split: prod.splits option.splits)

text \<open>
  C7. The service's GetAllUsers is the repository's GetAllUsers: for every repository and
  state the users, the error and the state left behind are the repository's, in the
  repository's order, both for the method itself and through the constructed service.
\<close>

theorem service_list_is_delegation:
  "userService_GetAllUsers repo st = repo_GetAllUsers repo st
   \<and> svc_GetAllUsers (NewUserService tbl repo) st = repo_GetAllUsers repo st"
  by (simp add: userService_GetAllUsers_def NewUserService_def)

section \<open>The routes\<close>

text \<open>
  C8. The server registers GET /health, and its handler answers every request in every
  state with status 200 and the body {"status":"ok"}; it neither reads nor changes the
  state, whatever service (and database) stands behind the server.
\<close>

theorem health_always_ok:
  "route (NewServer isEmail svc) ''GET'' ''/health'' = Some health
   \<and> health b st = (\<lparr>status = 200, body = JObj [(''status'', JStr (str ''ok''))]\<rparr>, st)"
  by (simp add: route_def NewServer_def health_def H_def)

section \<open>Normalisation\<close>

text \<open>
  C10. The service's normalisation is idempotent. Inputs without leading or trailing white
  space, with an email on which lower-casing changes no rune, reach the repository
  unchanged; trimming twice is trimming once; and, for a case table on which lower-casing
  is idempotent and keeps white space apart from other runes, normalising an email twice
  is normalising it once.
\<close>

theorem normalization_idempotent:
  "((nombre = [] \<or> (\<not> IsSpace (hd nombre) \<and> \<not> IsSpace (last nombre)))
     \<and> (apellido = [] \<or> (\<not> IsSpace (hd apellido) \<and> \<not> IsSpace (last apellido)))
     \<and> (email = [] \<or> (\<not> IsSpace (hd email) \<and> \<not> IsSpace (last email)))
     \<and> (\<forall>r\<in>set email. unicode_ToLower tbl r = r)
     \<and> (reparto = [] \<or> (\<not> IsSpace (hd reparto) \<and> \<not> IsSpace (last reparto)))
     \<longrightarrow> userService_CreateUser tbl repo nombre apellido email reparto st =
           repo_CreateUser repo
             \<lparr>ID = 0, Nombre = nombre, Apellido = apellido, Email = email,
              Reparto = reparto, CreatedAt = ZeroTime, UpdatedAt = ZeroTime\<rparr> st)
   \<and> TrimSpace (TrimSpace s) = TrimSpace s
   \<and> (case_table_ok tbl \<longrightarrow>
        ToLower tbl (TrimSpace (ToLower tbl (TrimSpace s))) = ToLower tbl (TrimSpace s))"
proof (intro conjI impI)
  assume h: "(nombre = [] \<or> (\<not> IsSpace (hd nombre) \<and> \<not> IsSpace (last nombre)))
     \<and> (apellido = [] \<or> (\<not> IsSpace (hd apellido) \<and> \<not> IsSpace (last apellido)))
     \<and> (email = [] \<or> (\<not> IsSpace (hd email) \<and> \<not> IsSpace (last email)))
     \<and> (\<forall>r\<in>set email. unicode_ToLower tbl r = r)
     \<and> (reparto = [] \<or> (\<not> IsSpace (hd reparto) \<and> \<not> IsSpace (last reparto)))"
  have n: "TrimSpace nombre = nombre" using h by (intro TrimSpace_fixed) blast
  have a: "TrimSpace apellido = apellido" using h by (intro TrimSpace_fixed) blast
  have e: "TrimSpace email = email" using h by (intro TrimSpace_fixed) blast
  have r: "TrimSpace reparto = reparto" using h by (intro TrimSpace_fixed) blast
  have l: "ToLower tbl email = email" using h by (simp add: ToLower_def map_idI)
  show "userService_CreateUser tbl repo nombre apellido email reparto st =
           repo_CreateUser repo
             \<lparr>ID = 0, Nombre = nombre, Apellido = apellido, Email = email,
              Reparto = reparto, CreatedAt = ZeroTime, UpdatedAt = ZeroTime\<rparr> st"
    by (simp add: userService_CreateUser_def n a e r l split: prod.splits option.splits)
next
  show "TrimSpace (TrimSpace s) = TrimSpace s" by (rule TrimSpace_idem)
next
  assume t: "case_table_ok tbl"
  show "ToLower tbl (TrimSpace (ToLower tbl (TrimSpace s))) = ToLower tbl (TrimSpace s)"
    by (simp only: TrimSpace_ToLower [OF t] TrimSpace_idem ToLower_idem [OF t])
qed

theorem normalization_idempotent_witness:
  "case_table_ok latin1_lower
   \<and> \<not> IsSpace (hd (str ''Juan'')) \<and> \<not> IsSpace (last (str ''Juan''))
   \<and> unicode_ToLower latin1_lower 0x6A = 0x6A
   \<and> userService_CreateUser latin1_lower NewUserRepository
        (str ''Juan'') (str ''P'' @ [0xE9] @ str ''rez'') (str ''j@x.io'') (str ''IT'')
        (fresh None 7) =
      repo_CreateUser NewUserRepository
        \<lparr>ID = 0, Nombre = str ''Juan'', Apellido = str ''P'' @ [0xE9] @ str ''rez'',
         Email = str ''j@x.io'', Reparto = str ''IT'',
         CreatedAt = ZeroTime, UpdatedAt = ZeroTime\<rparr> (fresh None 7)
   \<and> ToLower latin1_lower (TrimSpace (ToLower latin1_lower
        (TrimSpace (str '' J@X.io'' @ [0xC9, 0xA0])))) = str ''j@x.io'' @ [0xE9]"
proof -
  have t: "case_table_ok latin1_lower" by (rule case_table_ok_latin1)
  have s: "\<not> IsSpace (hd (str ''Juan'')) \<and> \<not> IsSpace (last (str ''Juan''))"
    by (simp add: str_def IsSpace_def)
  have l: "unicode_ToLower latin1_lower 0x6A = 0x6A"
    by (simp add: unicode_ToLower_def)
  have h: "(str ''Juan'' = [] \<or> (\<not> IsSpace (hd (str ''Juan'')) \<and> \<not> IsSpace (last (str ''Juan''))))
     \<and> (str ''P'' @ [0xE9] @ str ''rez'' = [] \<or> (\<not> IsSpace (hd (str ''P'' @ [0xE9] @ str ''rez''))
           \<and> \<not> IsSpace (last (str ''P'' @ [0xE9] @ str ''rez''))))
     \<and> (str ''j@x.io'' = [] \<or> (\<not> IsSpace (hd (str ''j@x.io'')) \<and> \<not> IsSpace (last (str ''j@x.io''))))
     \<and> (\<forall>r\<in>set (str ''j@x.io''). unicode_ToLower latin1_lower r = r)
     \<and> (str ''IT'' = [] \<or> (\<not> IsSpace (hd (str ''IT'')) \<and> \<not> IsSpace (last (str ''IT''))))"
    by (simp add: str_def IsSpace_def unicode_ToLower_def)
  note inst = normalization_idempotent [of "str ''Juan''" "str ''P'' @ [0xE9] @ str ''rez''"
      "str ''j@x.io''" latin1_lower "str ''IT''" NewUserRepository "fresh None 7"
      "str '' J@X.io'' @ [0xC9, 0xA0]"]
  have c1: "userService_CreateUser latin1_lower NewUserRepository
        (str ''Juan'') (str ''P'' @ [0xE9] @ str ''rez'') (str ''j@x.io'') (str ''IT'')
        (fresh None 7) =
      repo_CreateUser NewUserRepository
        \<lparr>ID = 0, Nombre = str ''Juan'', Apellido = str ''P'' @ [0xE9] @ str ''rez'',
         Email = str ''j@x.io'', Reparto = str ''IT'',
         CreatedAt = ZeroTime, UpdatedAt = ZeroTime\<rparr> (fresh None 7)"
    using inst h by blast
  have c2: "ToLower latin1_lower (TrimSpace (ToLower latin1_lower
        (TrimSpace (str '' J@X.io'' @ [0xC9, 0xA0])))) =
      ToLower latin1_lower (TrimSpace (str '' J@X.io'' @ [0xC9, 0xA0]))"
    using inst t by blast
  have v: "ToLower latin1_lower (TrimSpace (str '' J@X.io'' @ [0xC9, 0xA0])) = str ''j@x.io'' @ [0xE9]"
    by (simp add: ToLower_def TrimSpace_def str_def IsSpace_def unicode_ToLower_def latin1_lower_def)
  show ?thesis using t s l c1 c2 v by simp
qed

section \<open>The table of users\<close>

lemma service_create_on_DB:
  "userService_CreateUser tbl NewUserRepository n a e r db =
     Create \<lparr>ID = 0, Nombre = TrimSpace n, Apellido = TrimSpace a,
             Email = ToLower tbl (TrimSpace e), Reparto = TrimSpace r,
             CreatedAt = ZeroTime, UpdatedAt = ZeroTime\<rparr> db"
  by (simp add: userService_CreateUser_def NewUserRepository_def userRepository_CreateUser_def
      split: prod.splits option.splits)

lemma store_inv_fresh: "store_inv tbl (fresh f t)"
  by (simp add: store_inv_def fresh_def)

lemma store_inv_Create:
  assumes "store_inv tbl db" "ID u = 0" "Email u = ToLower tbl (TrimSpace e)"
  shows "store_inv tbl (snd (Create u db))"
proof (cases "fst (Create u db)")
  case (Some err)
  then have "snd (Create u db) = db"
    by (auto simp: Create_def Let_def split: option.splits if_splits)
  then show ?thesis using assms(1) by simp
next
  case None
  then have f: "fault db = None" and k: "seq db + 1 \<notin> set (map ID (rows db))"
    and m: "Email u \<notin> set (map Email (rows db))"
    and s: "snd (Create u db) =
      db\<lparr>rows := rows db @ [u\<lparr>ID := seq db + 1, CreatedAt := stamp (now db) (CreatedAt u),
                                UpdatedAt := stamp (now db) (UpdatedAt u)\<rparr>],
         seq := max (seq db) (seq db + 1)\<rparr>"
    using assms(2) by (auto simp: Create_def Let_def split: option.splits if_splits)
  show ?thesis
    unfolding s using assms(1,3) k m
    by (auto simp: store_inv_def)
qed

lemma store_inv_step: "store_inv tbl db \<Longrightarrow> store_inv tbl (step tbl ev db)"
proof (cases ev)
  case (CreateCall n a e r)
  assume "store_inv tbl db"
  then show ?thesis unfolding CreateCall step.simps service_create_on_DB
    by (rule store_inv_Create) simp_all
next
  case (Outage f)
  assume "store_inv tbl db"
  then show ?thesis unfolding Outage by (simp add: store_inv_def)
next
  case (Tick t)
  assume "store_inv tbl db"
  then show ?thesis unfolding Tick by (simp add: store_inv_def)
qed

lemma store_inv_run: "store_inv tbl db \<Longrightarrow> store_inv tbl (run tbl evs db)"
  by (induction evs arbitrary: db) (simp_all add: store_inv_step)

lemma stored_email_conflict:
  assumes t: "case_table_ok tbl" and i: "store_inv tbl db" and u: "u \<in> set (rows db)"
    and p: "\<forall>x\<in>set pre. IsSpace x" and q: "\<forall>x\<in>set post. IsSpace x"
    and c: "ToLower tbl c = ToLower tbl (Email u)"
  shows "ToLower tbl (TrimSpace (pre @ c @ post)) = Email u"
proof -
  obtain e where e: "Email u = ToLower tbl (TrimSpace e)"
    using i u unfolding store_inv_def by blast
  have "ToLower tbl (TrimSpace (pre @ c @ post)) = ToLower tbl (TrimSpace c)"
    using p q by (simp only: TrimSpace_pad)
  also have "\<dots> = TrimSpace (ToLower tbl c)" by (simp only: TrimSpace_ToLower [OF t])
  also have "\<dots> = TrimSpace (ToLower tbl (Email u))" by (simp only: c)
  also have "\<dots> = Email u"
    unfolding e by (simp only: ToLower_idem [OF t] TrimSpace_ToLower [OF t] TrimSpace_idem)
  finally show ?thesis .
qed

lemma Create_conflict:
  assumes "u \<in> set (rows db)" "Email v = Email u"
  shows "\<exists>err. Create v db = (Some err, db) \<and> (fault db = None \<and> ID v = 0 \<and> seq db + 1 \<notin> set (map ID (rows db)) \<longrightarrow> err = ErrUniqueEmail)"
  using assms by (auto simp: Create_def Let_def split: option.splits)


lemma store_inv_next_id: "store_inv tbl db \<Longrightarrow> seq db + 1 \<notin> set (map ID (rows db))"
  by (fastforce simp: store_inv_def)

text \<open>
  C2. In every state that a run reaches from the freshly migrated table, the persisted
  users have pairwise different emails and pairwise different ids, none of them zero. For
  a case table on which lower-casing is idempotent and keeps white space apart from other
  runes, a create whose email is a stored email up to letter case, wrapped in white space,
  fails and leaves the state as it was; the error is the uniqueness violation of the
  email index whenever the database answers at all (otherwise it is the database's fault).
\<close>

theorem persisted_users_unique:
  assumes "db = run tbl evs (fresh f t)"
  shows "distinct (map Email (rows db)) \<and> distinct (map ID (rows db))
    \<and> (\<forall>u\<in>set (rows db). ID u \<noteq> 0)
    \<and> (case_table_ok tbl \<longrightarrow>
         (\<forall>u\<in>set (rows db). \<forall>pre c post.
            (\<forall>x\<in>set pre. IsSpace x) \<and> (\<forall>x\<in>set post. IsSpace x)
              \<and> ToLower tbl c = ToLower tbl (Email u) \<longrightarrow>
            (\<exists>err. userService_CreateUser tbl NewUserRepository nombre apellido
                      (pre @ c @ post) reparto db = (Some err, db))
            \<and> (fault db = None \<longrightarrow>
                 userService_CreateUser tbl NewUserRepository nombre apellido
                   (pre @ c @ post) reparto db = (Some ErrUniqueEmail, db))))"
proof -
  have i: "store_inv tbl db" unfolding assms by (rule store_inv_run) (rule store_inv_fresh)
  have a: "distinct (map Email (rows db)) \<and> distinct (map ID (rows db))
      \<and> (\<forall>u\<in>set (rows db). ID u \<noteq> 0)"
    using i by (auto simp: store_inv_def)
  have b: "(\<exists>err. userService_CreateUser tbl NewUserRepository nombre apellido
                      (pre @ c @ post) reparto db = (Some err, db))
            \<and> (fault db = None \<longrightarrow>
                 userService_CreateUser tbl NewUserRepository nombre apellido
                   (pre @ c @ post) reparto db = (Some ErrUniqueEmail, db))"
    if t: "case_table_ok tbl" and u: "u \<in> set (rows db)"
      and p: "\<forall>x\<in>set pre. IsSpace x" and q: "\<forall>x\<in>set post. IsSpace x"
      and c: "ToLower tbl c = ToLower tbl (Email u)" for u pre c post
  proof -
    let ?v = "\<lparr>ID = 0, Nombre = TrimSpace nombre, Apellido = TrimSpace apellido,
             Email = ToLower tbl (TrimSpace (pre @ c @ post)), Reparto = TrimSpace reparto,
             CreatedAt = ZeroTime, UpdatedAt = ZeroTime\<rparr>"
    have "Email ?v = Email u" using stored_email_conflict [OF t i u p q c] by simp
    from Create_conflict [OF u this] store_inv_next_id [OF i]
    show ?thesis unfolding service_create_on_DB by auto
  qed
  show ?thesis using a b by blast
qed

theorem persisted_users_unique_witness:
  "case_table_ok latin1_lower \<and> IsSpace 0x20 \<and> IsSpace 0x09
   \<and> ToLower latin1_lower (str ''JUAN@Example.COM'') = ToLower latin1_lower (str ''juan@example.com'')
   \<and> map Email (rows (run latin1_lower
          [CreateCall (str ''  Juan '') (str ''Perez'') (str ''Juan@Example.com '') (str ''IT''),
           Tick 9,
           CreateCall (str ''Ana'') (str ''Diaz'') (str ''ana@example.com'') (str ''RH'')]
          (fresh None 5))) = [str ''juan@example.com'', str ''ana@example.com'']
   \<and> map ID (rows (run latin1_lower
          [CreateCall (str ''  Juan '') (str ''Perez'') (str ''Juan@Example.com '') (str ''IT''),
           Tick 9,
           CreateCall (str ''Ana'') (str ''Diaz'') (str ''ana@example.com'') (str ''RH'')]
          (fresh None 5))) = [1, 2]
   \<and> userService_CreateUser latin1_lower NewUserRepository (str ''J'') (str ''P'')
        ([0x20, 0x09] @ str ''JUAN@Example.COM'' @ [0x20]) (str ''IT'')
        (run latin1_lower
          [CreateCall (str ''  Juan '') (str ''Perez'') (str ''Juan@Example.com '') (str ''IT''),
           Tick 9,
           CreateCall (str ''Ana'') (str ''Diaz'') (str ''ana@example.com'') (str ''RH'')]
          (fresh None 5)) =
      (Some ErrUniqueEmail,
        run latin1_lower
          [CreateCall (str ''  Juan '') (str ''Perez'') (str ''Juan@Example.com '') (str ''IT''),
           Tick 9,
           CreateCall (str ''Ana'') (str ''Diaz'') (str ''ana@example.com'') (str ''RH'')]
          (fresh None 5))"
proof -
  let ?db = "run latin1_lower
          [CreateCall (str ''  Juan '') (str ''Perez'') (str ''Juan@Example.com '') (str ''IT''),
           Tick 9,
           CreateCall (str ''Ana'') (str ''Diaz'') (str ''ana@example.com'') (str ''RH'')]
          (fresh None 5)"
  let ?u = "\<lparr>ID = 1, Nombre = str ''Juan'', Apellido = str ''Perez'',
             Email = str ''juan@example.com'', Reparto = str ''IT'',
             CreatedAt = At 5, UpdatedAt = At 5\<rparr>"
  have r: "?db = \<lparr>rows = [?u,
          \<lparr>ID = 2, Nombre = str ''Ana'', Apellido = str ''Diaz'',
             Email = str ''ana@example.com'', Reparto = str ''RH'',
             CreatedAt = At 9, UpdatedAt = At 9\<rparr>], seq = 2, fault = None, now = 9\<rparr>"
    by (simp add: userService_CreateUser_def NewUserRepository_def userRepository_CreateUser_def
        Create_def fresh_def TrimSpace_def ToLower_def str_def IsSpace_def unicode_ToLower_def
        stamp_def Let_def)
  have t: "case_table_ok latin1_lower" by (rule case_table_ok_latin1)
  have s: "IsSpace 0x20 \<and> IsSpace 0x09" by (simp add: IsSpace_def)
  have c: "ToLower latin1_lower (str ''JUAN@Example.COM'') = ToLower latin1_lower (str ''juan@example.com'')"
    by (simp add: ToLower_def str_def unicode_ToLower_def)
  have u: "?u \<in> set (rows ?db)" unfolding r by simp
  have f: "fault ?db = None" unfolding r by simp
  have e: "Email ?u = str ''juan@example.com''" by simp
  note inst = persisted_users_unique [of ?db latin1_lower _ None 5 "str ''J''" "str ''P''" "str ''IT''", OF refl]
  have k: "userService_CreateUser latin1_lower NewUserRepository (str ''J'') (str ''P'')
        ([0x20, 0x09] @ str ''JUAN@Example.COM'' @ [0x20]) (str ''IT'') ?db = (Some ErrUniqueEmail, ?db)"
    using inst t u s c f e by (metis (no_types, lifting) empty_iff insert_iff list.simps(15) set_empty)
  have m: "map Email (rows ?db) = [str ''juan@example.com'', str ''ana@example.com'']"
    and n: "map ID (rows ?db) = [1, 2]"
    unfolding r by simp_all
  show ?thesis using t s c m n k by blast
qed

section \<open>The handlers\<close>

lemma bind_ok_iff:
  "ShouldBindJSON isEmail b = Inr req \<longleftrightarrow>
     b = Decoded req \<and> req_Nombre req \<noteq> [] \<and> req_Apellido req \<noteq> []
       \<and> req_Email req \<noteq> [] \<and> isEmail (req_Email req) \<and> req_Reparto req \<noteq> []"
  by (cases b) (auto simp: ShouldBindJSON_def validateStruct_def required_def split: list.splits if_splits)

text \<open>
  C3. GET /api/v1/usuarios is routed to ListUsers. On a table with no rows, when the
  database answers, the response is 200 with the empty JSON array and the state is
  untouched. For every repository behind the service: when its GetAllUsers returns no
  error the response is 200 with the JSON of its users, when it returns an error the
  response is 500 with the fixed message, and a 500 is sent only in that case.
\<close>

theorem list_users_responses:
  "route (app isEmail tbl) ''GET'' ''/api/v1/usuarios'' =
     Some (UserHandler_ListUsers (NewUserService tbl NewUserRepository))
   \<and> (rows db = [] \<and> fault db = None \<longrightarrow>
        UserHandler_ListUsers (NewUserService tbl NewUserRepository) b db =
          (\<lparr>status = 200, body = JArr []\<rparr>, db))
   \<and> (snd (fst (repo_GetAllUsers repo st)) = None \<longrightarrow>
        fst (UserHandler_ListUsers (NewUserService tbl repo) b st) =
          \<lparr>status = 200, body = users_json (fst (fst (repo_GetAllUsers repo st)))\<rparr>)
   \<and> (snd (fst (repo_GetAllUsers repo st)) \<noteq> None \<longrightarrow>
        fst (UserHandler_ListUsers (NewUserService tbl repo) b st) =
          \<lparr>status = 500, body = JObj [(''error'', JStr (str ''no se pudo obtener usuarios''))]\<rparr>)
   \<and> (status (fst (UserHandler_ListUsers (NewUserService tbl repo) b st)) = 500) =
        (snd (fst (repo_GetAllUsers repo st)) \<noteq> None)"
proof (intro conjI impI)
  show "route (app isEmail tbl) ''GET'' ''/api/v1/usuarios'' =
     Some (UserHandler_ListUsers (NewUserService tbl NewUserRepository))"
    by (simp add: route_def app_def NewServer_def RegisterRoutes_def)
next
  assume "rows db = [] \<and> fault db = None"
  then show "UserHandler_ListUsers (NewUserService tbl NewUserRepository) b db =
          (\<lparr>status = 200, body = JArr []\<rparr>, db)"
    by (simp add: UserHandler_ListUsers_def NewUserService_def userService_GetAllUsers_def
        NewUserRepository_def userRepository_GetAllUsers_def Find_def users_json_def)
next
  assume "snd (fst (repo_GetAllUsers repo st)) = None"
  then show "fst (UserHandler_ListUsers (NewUserService tbl repo) b st) =
          \<lparr>status = 200, body = users_json (fst (fst (repo_GetAllUsers repo st)))\<rparr>"
    by (auto simp: UserHandler_ListUsers_def NewUserService_def userService_GetAllUsers_def
        split: prod.splits option.splits)
next
  assume "snd (fst (repo_GetAllUsers repo st)) \<noteq> None"
  then show "fst (UserHandler_ListUsers (NewUserService tbl repo) b st) =
          \<lparr>status = 500, body = JObj [(''error'', JStr (str ''no se pudo obtener usuarios''))]\<rparr>"
    by (auto simp: UserHandler_ListUsers_def NewUserService_def userService_GetAllUsers_def H_def
        split: prod.splits option.splits)
next
  show "(status (fst (UserHandler_ListUsers (NewUserService tbl repo) b st)) = 500) =
        (snd (fst (repo_GetAllUsers repo st)) \<noteq> None)"
    by (auto simp: UserHandler_ListUsers_def NewUserService_def userService_GetAllUsers_def
        split: prod.splits option.splits)
qed

theorem list_users_responses_witness:
  "rows (fresh None 3) = [] \<and> fault (fresh None 3) = None
   \<and> UserHandler_ListUsers (NewUserService latin1_lower NewUserRepository) (Undecodable [])
        (fresh None 3) = (\<lparr>status = 200, body = JArr []\<rparr>, fresh None 3)
   \<and> snd (fst (repo_GetAllUsers NewUserRepository (fresh (Some (ErrUnavailable (str ''gone''))) 3)))
        = Some (ErrUnavailable (str ''gone''))
   \<and> fst (UserHandler_ListUsers (NewUserService latin1_lower NewUserRepository) (Undecodable [])
        (fresh (Some (ErrUnavailable (str ''gone''))) 3)) =
      \<lparr>status = 500, body = JObj [(''error'', JStr (str ''no se pudo obtener usuarios''))]\<rparr>"
proof -
  have a: "rows (fresh None 3) = [] \<and> fault (fresh None 3) = None" by (simp add: fresh_def)
  have e: "snd (fst (repo_GetAllUsers NewUserRepository (fresh (Some (ErrUnavailable (str ''gone''))) 3)))
        = Some (ErrUnavailable (str ''gone''))"
    by (simp add: NewUserRepository_def userRepository_GetAllUsers_def Find_def fresh_def)
  have c1: "UserHandler_ListUsers (NewUserService latin1_lower NewUserRepository) (Undecodable [])
        (fresh None 3) = (\<lparr>status = 200, body = JArr []\<rparr>, fresh None 3)"
    using list_users_responses [of sample_isEmail latin1_lower "fresh None 3" "Undecodable []"
        NewUserRepository "fresh None 3"] a by blast
  have c2: "fst (UserHandler_ListUsers (NewUserService latin1_lower NewUserRepository) (Undecodable [])
        (fresh (Some (ErrUnavailable (str ''gone''))) 3)) =
      \<lparr>status = 500, body = JObj [(''error'', JStr (str ''no se pudo obtener usuarios''))]\<rparr>"
    using list_users_responses [of sample_isEmail latin1_lower "fresh None 3" "Undecodable []"
        NewUserRepository "fresh (Some (ErrUnavailable (str ''gone''))) 3"] e by simp
  show ?thesis using a e c1 c2 by blast
qed

text \<open>
  C4. POST /api/v1/usuarios is routed to CreateUser. If the binding fails, the response is
  400 whose body is {"error": the message of the binding error} and the state is
  untouched; if the binding succeeds and the service returns an error, the response is 500
  with exactly {"error":"no se pudo crear el usuario"}; if the service returns no error,
  the response is 201 with exactly {"message":"usuario creado exitosamente"}.
\<close>

theorem create_handler_responses:
  "route (NewServer isEmail svc) ''POST'' ''/api/v1/usuarios'' = Some (UserHandler_CreateUser isEmail svc)
   \<and> (ShouldBindJSON isEmail b = Inl err \<longrightarrow>
        UserHandler_CreateUser isEmail svc b st =
          (\<lparr>status = 400, body = JObj [(''error'', JStr (Error err))]\<rparr>, st))
   \<and> (ShouldBindJSON isEmail b = Inr req
        \<and> fst (svc_CreateUser svc (req_Nombre req) (req_Apellido req) (req_Email req)
                 (req_Reparto req) st) \<noteq> None \<longrightarrow>
        UserHandler_CreateUser isEmail svc b st =
          (\<lparr>status = 500, body = JObj [(''error'', JStr (str ''no se pudo crear el usuario''))]\<rparr>,
           snd (svc_CreateUser svc (req_Nombre req) (req_Apellido req) (req_Email req)
                  (req_Reparto req) st)))
   \<and> (ShouldBindJSON isEmail b = Inr req
        \<and> fst (svc_CreateUser svc (req_Nombre req) (req_Apellido req) (req_Email req)
                 (req_Reparto req) st) = None \<longrightarrow>
        UserHandler_CreateUser isEmail svc b st =
          (\<lparr>status = 201, body = JObj [(''message'', JStr (str ''usuario creado exitosamente''))]\<rparr>,
           snd (svc_CreateUser svc (req_Nombre req) (req_Apellido req) (req_Email req)
                  (req_Reparto req) st)))"
proof (intro conjI impI)
  show "route (NewServer isEmail svc) ''POST'' ''/api/v1/usuarios'' = Some (UserHandler_CreateUser isEmail svc)"
    by (simp add: route_def NewServer_def RegisterRoutes_def)
next
  assume "ShouldBindJSON isEmail b = Inl err"
  then show "UserHandler_CreateUser isEmail svc b st =
          (\<lparr>status = 400, body = JObj [(''error'', JStr (Error err))]\<rparr>, st)"
    by (simp add: UserHandler_CreateUser_def H_def)
next
  assume "ShouldBindJSON isEmail b = Inr req
        \<and> fst (svc_CreateUser svc (req_Nombre req) (req_Apellido req) (req_Email req)
                 (req_Reparto req) st) \<noteq> None"
  then show "UserHandler_CreateUser isEmail svc b st =
          (\<lparr>status = 500, body = JObj [(''error'', JStr (str ''no se pudo crear el usuario''))]\<rparr>,
           snd (svc_CreateUser svc (req_Nombre req) (req_Apellido req) (req_Email req)
                  (req_Reparto req) st))"
    by (auto simp: UserHandler_CreateUser_def H_def split: prod.splits option.splits)
next
  assume "ShouldBindJSON isEmail b = Inr req
        \<and> fst (svc_CreateUser svc (req_Nombre req) (req_Apellido req) (req_Email req)
                 (req_Reparto req) st) = None"
  then show "UserHandler_CreateUser isEmail svc b st =
          (\<lparr>status = 201, body = JObj [(''message'', JStr (str ''usuario creado exitosamente''))]\<rparr>,
           snd (svc_CreateUser svc (req_Nombre req) (req_Apellido req) (req_Email req)
                  (req_Reparto req) st))"
    by (auto simp: UserHandler_CreateUser_def H_def split: prod.splits option.splits)
qed

theorem create_handler_responses_witness:
  "ShouldBindJSON sample_isEmail
      (Decoded \<lparr>req_Nombre = str ''Ana'', req_Apellido = [], req_Email = str ''not-an-email'',
                req_Reparto = str ''RH''\<rparr>) =
     Inl (ErrValidation [FieldError ''Apellido'' ''required'', FieldError ''Email'' ''email''])
   \<and> UserHandler_CreateUser sample_isEmail (NewUserService latin1_lower NewUserRepository)
      (Decoded \<lparr>req_Nombre = str ''Ana'', req_Apellido = [], req_Email = str ''not-an-email'',
                req_Reparto = str ''RH''\<rparr>) (fresh None 1) =
     (\<lparr>status = 400, body = JObj [(''error'', JStr (Error
         (ErrValidation [FieldError ''Apellido'' ''required'', FieldError ''Email'' ''email''])))]\<rparr>,
      fresh None 1)
   \<and> fst (UserHandler_CreateUser sample_isEmail (NewUserService latin1_lower NewUserRepository)
      (Decoded \<lparr>req_Nombre = str ''Ana'', req_Apellido = str ''Diaz'',
                req_Email = str ''Ana@Example.com'', req_Reparto = str ''RH''\<rparr>)
      (fresh (Some (ErrUnavailable (str ''gone''))) 1)) =
     \<lparr>status = 500, body = JObj [(''error'', JStr (str ''no se pudo crear el usuario''))]\<rparr>
   \<and> fst (UserHandler_CreateUser sample_isEmail (NewUserService latin1_lower NewUserRepository)
      (Decoded \<lparr>req_Nombre = str ''Ana'', req_Apellido = str ''Diaz'',
                req_Email = str ''Ana@Example.com'', req_Reparto = str ''RH''\<rparr>)
      (fresh None 1)) =
     \<lparr>status = 201, body = JObj [(''message'', JStr (str ''usuario creado exitosamente''))]\<rparr>"
proof -
  let ?svc = "NewUserService latin1_lower NewUserRepository"
  let ?bad = "\<lparr>req_Nombre = str ''Ana'', req_Apellido = [], req_Email = str ''not-an-email'',
                req_Reparto = str ''RH''\<rparr>"
  let ?good = "\<lparr>req_Nombre = str ''Ana'', req_Apellido = str ''Diaz'',
                req_Email = str ''Ana@Example.com'', req_Reparto = str ''RH''\<rparr>"
  let ?down = "fresh (Some (ErrUnavailable (str ''gone''))) 1"
  have b1: "ShouldBindJSON sample_isEmail (Decoded ?bad) =
     Inl (ErrValidation [FieldError ''Apellido'' ''required'', FieldError ''Email'' ''email''])"
    by (simp add: ShouldBindJSON_def validateStruct_def required_def sample_isEmail_def str_def
        IsSpace_def Let_def)
  have b2: "ShouldBindJSON sample_isEmail (Decoded ?good) = Inr ?good"
    by (simp add: ShouldBindJSON_def validateStruct_def required_def sample_isEmail_def str_def
        IsSpace_def Let_def)
  have e1: "fst (svc_CreateUser ?svc (req_Nombre ?good) (req_Apellido ?good) (req_Email ?good)
                 (req_Reparto ?good) ?down) \<noteq> None"
    by (simp add: NewUserService_def service_create_on_DB Create_def fresh_def)
  have e2: "fst (svc_CreateUser ?svc (req_Nombre ?good) (req_Apellido ?good) (req_Email ?good)
                 (req_Reparto ?good) (fresh None 1)) = None"
    by (simp add: NewUserService_def service_create_on_DB Create_def fresh_def)
  have c1: "UserHandler_CreateUser sample_isEmail ?svc (Decoded ?bad) (fresh None 1) =
     (\<lparr>status = 400, body = JObj [(''error'', JStr (Error
         (ErrValidation [FieldError ''Apellido'' ''required'', FieldError ''Email'' ''email''])))]\<rparr>,
      fresh None 1)"
    using create_handler_responses [of sample_isEmail ?svc "Decoded ?bad" _ "fresh None 1"] b1
    by blast
  have c2: "fst (UserHandler_CreateUser sample_isEmail ?svc (Decoded ?good) ?down) =
     \<lparr>status = 500, body = JObj [(''error'', JStr (str ''no se pudo crear el usuario''))]\<rparr>"
    using create_handler_responses [of sample_isEmail ?svc "Decoded ?good" _ ?down ?good] b2 e1
    by simp
  have c3: "fst (UserHandler_CreateUser sample_isEmail ?svc (Decoded ?good) (fresh None 1)) =
     \<lparr>status = 201, body = JObj [(''message'', JStr (str ''usuario creado exitosamente''))]\<rparr>"
    using create_handler_responses [of sample_isEmail ?svc "Decoded ?good" _ "fresh None 1" ?good] b2 e2
    by simp
  show ?thesis using b1 c1 c2 c3 by blast
qed

text \<open>
  C5. An undecodable body, an empty (absent) required field or an email that fails the
  format check is answered with 400; and whenever the answer is 400 the binding has
  failed, the state after the request is the state before it, and the handler's result is
  the same for every service put behind it, so the service was not called.
\<close>

theorem rejected_create_leaves_store:
  "(b = Undecodable m \<or> (b = Decoded req \<and> (req_Nombre req = [] \<or> req_Apellido req = []
        \<or> req_Email req = [] \<or> req_Reparto req = [] \<or> \<not> isEmail (req_Email req))) \<longrightarrow>
      status (fst (UserHandler_CreateUser isEmail svc b st)) = 400)
   \<and> (status (fst (UserHandler_CreateUser isEmail svc b st)) = 400 \<longrightarrow>
        snd (UserHandler_CreateUser isEmail svc b st) = st
        \<and> UserHandler_CreateUser isEmail svc' b st = UserHandler_CreateUser isEmail svc b st
        \<and> (\<exists>err. ShouldBindJSON isEmail b = Inl err))"
proof (intro conjI impI)
  assume h: "b = Undecodable m \<or> (b = Decoded req \<and> (req_Nombre req = [] \<or> req_Apellido req = []
        \<or> req_Email req = [] \<or> req_Reparto req = [] \<or> \<not> isEmail (req_Email req)))"
  have "\<exists>err. ShouldBindJSON isEmail b = Inl err"
  proof (cases "ShouldBindJSON isEmail b")
    case (Inl e) then show ?thesis by blast
  next
    case (Inr q)
    then show ?thesis using h unfolding bind_ok_iff by auto
  qed
  then show "status (fst (UserHandler_CreateUser isEmail svc b st)) = 400"
    by (auto simp: UserHandler_CreateUser_def)
next
  assume s: "status (fst (UserHandler_CreateUser isEmail svc b st)) = 400"
  then obtain err where e: "ShouldBindJSON isEmail b = Inl err"
    by (cases "ShouldBindJSON isEmail b")
       (auto simp: UserHandler_CreateUser_def split: prod.splits option.splits)
  show "snd (UserHandler_CreateUser isEmail svc b st) = st"
    by (simp add: UserHandler_CreateUser_def e)
  show "UserHandler_CreateUser isEmail svc' b st = UserHandler_CreateUser isEmail svc b st"
    by (simp add: UserHandler_CreateUser_def e)
  show "\<exists>err. ShouldBindJSON isEmail b = Inl err" using e by blast
qed


theorem rejected_create_leaves_store_witness:
  "\<not> sample_isEmail (str ''not-an-email'')
   \<and> status (fst (UserHandler_CreateUser sample_isEmail (NewUserService latin1_lower NewUserRepository)
        (Decoded \<lparr>req_Nombre = str ''Ana'', req_Apellido = str ''Diaz'',
                 req_Email = str ''not-an-email'', req_Reparto = str ''RH''\<rparr>) (fresh None 1))) = 400
   \<and> snd (UserHandler_CreateUser sample_isEmail (NewUserService latin1_lower NewUserRepository)
        (Decoded \<lparr>req_Nombre = str ''Ana'', req_Apellido = str ''Diaz'',
                 req_Email = str ''not-an-email'', req_Reparto = str ''RH''\<rparr>) (fresh None 1)) =
      fresh None 1"
proof -
  let ?svc = "NewUserService latin1_lower NewUserRepository"
  let ?req = "\<lparr>req_Nombre = str ''Ana'', req_Apellido = str ''Diaz'',
                 req_Email = str ''not-an-email'', req_Reparto = str ''RH''\<rparr>"
  have n: "\<not> sample_isEmail (str ''not-an-email'')"
    by (simp add: sample_isEmail_def str_def)
  then have h: "Decoded ?req = Undecodable [] \<or> (Decoded ?req = Decoded ?req \<and>
      (req_Nombre ?req = [] \<or> req_Apellido ?req = [] \<or> req_Email ?req = []
        \<or> req_Reparto ?req = [] \<or> \<not> sample_isEmail (req_Email ?req)))"
    by simp
  note inst = rejected_create_leaves_store [of "Decoded ?req" "[]" ?req sample_isEmail ?svc
      "fresh None 1" ?svc]
  have c1: "status (fst (UserHandler_CreateUser sample_isEmail ?svc (Decoded ?req) (fresh None 1))) = 400"
    using inst h by blast
  then have c2: "snd (UserHandler_CreateUser sample_isEmail ?svc (Decoded ?req) (fresh None 1)) = fresh None 1"
    using inst by blast
  show ?thesis using n c1 c2 by blast
qed

text \<open>
  C9. A request whose four fields are non-empty as submitted, with an email that passes
  the format check, passes the binding, also when a text field holds white space only. On
  a database that answers and holds neither the next id nor the normalised email, the
  response is 201 and the row appended holds the trimmed fields; each of Nombre, Apellido
  and Reparto that was white space only is stored as the empty string.
\<close>

theorem blank_field_is_stored_empty:
  assumes "req_Nombre req \<noteq> []" "req_Apellido req \<noteq> []" "req_Email req \<noteq> []"
    "isEmail (req_Email req)" "req_Reparto req \<noteq> []"
    "fault db = None" "seq db + 1 \<notin> set (map ID (rows db))"
    "ToLower tbl (TrimSpace (req_Email req)) \<notin> set (map Email (rows db))"
  shows "ShouldBindJSON isEmail (Decoded req) = Inr req
    \<and> fst (UserHandler_CreateUser isEmail (NewUserService tbl NewUserRepository) (Decoded req) db) =
        \<lparr>status = 201, body = JObj [(''message'', JStr (str ''usuario creado exitosamente''))]\<rparr>
    \<and> rows (snd (UserHandler_CreateUser isEmail (NewUserService tbl NewUserRepository) (Decoded req) db)) =
        rows db @ [\<lparr>ID = seq db + 1, Nombre = TrimSpace (req_Nombre req),
                    Apellido = TrimSpace (req_Apellido req),
                    Email = ToLower tbl (TrimSpace (req_Email req)),
                    Reparto = TrimSpace (req_Reparto req),
                    CreatedAt = At (now db), UpdatedAt = At (now db)\<rparr>]
    \<and> ((\<forall>x\<in>set (req_Nombre req). IsSpace x) \<longrightarrow>
         Nombre (last (rows (snd (UserHandler_CreateUser isEmail
           (NewUserService tbl NewUserRepository) (Decoded req) db)))) = [])
    \<and> ((\<forall>x\<in>set (req_Apellido req). IsSpace x) \<longrightarrow>
         Apellido (last (rows (snd (UserHandler_CreateUser isEmail
           (NewUserService tbl NewUserRepository) (Decoded req) db)))) = [])
    \<and> ((\<forall>x\<in>set (req_Reparto req). IsSpace x) \<longrightarrow>
         Reparto (last (rows (snd (UserHandler_CreateUser isEmail
           (NewUserService tbl NewUserRepository) (Decoded req) db)))) = [])"
proof -
  have b: "ShouldBindJSON isEmail (Decoded req) = Inr req"
    unfolding bind_ok_iff using assms by simp
  let ?u = "\<lparr>ID = 0, Nombre = TrimSpace (req_Nombre req), Apellido = TrimSpace (req_Apellido req),
             Email = ToLower tbl (TrimSpace (req_Email req)), Reparto = TrimSpace (req_Reparto req),
             CreatedAt = ZeroTime, UpdatedAt = ZeroTime\<rparr>"
  have c: "Create ?u db =
      (None, db\<lparr>rows := rows db @ [\<lparr>ID = seq db + 1, Nombre = TrimSpace (req_Nombre req),
                    Apellido = TrimSpace (req_Apellido req),
                    Email = ToLower tbl (TrimSpace (req_Email req)),
                    Reparto = TrimSpace (req_Reparto req),
                    CreatedAt = At (now db), UpdatedAt = At (now db)\<rparr>],
                 seq := max (seq db) (seq db + 1)\<rparr>)"
    using assms(6,7,8) by (simp add: Create_def Let_def stamp_def)
  have h: "UserHandler_CreateUser isEmail (NewUserService tbl NewUserRepository) (Decoded req) db =
      (\<lparr>status = 201, body = JObj [(''message'', JStr (str ''usuario creado exitosamente''))]\<rparr>,
       snd (Create ?u db))"
    by (simp add: UserHandler_CreateUser_def b NewUserService_def service_create_on_DB c H_def)
  show ?thesis
    unfolding h c using b by (simp add: TrimSpace_all_space)
qed

theorem blank_field_is_stored_empty_witness:
  "sample_isEmail (str ''ana@example.com'') \<and> IsSpace 0x20 \<and> IsSpace 0x09
   \<and> ShouldBindJSON sample_isEmail
        (Decoded \<lparr>req_Nombre = [0x20, 0x20, 0x20], req_Apellido = str ''Diaz'',
                  req_Email = str ''ana@example.com'', req_Reparto = [0x09, 0x20]\<rparr>) =
      Inr \<lparr>req_Nombre = [0x20, 0x20, 0x20], req_Apellido = str ''Diaz'',
           req_Email = str ''ana@example.com'', req_Reparto = [0x09, 0x20]\<rparr>
   \<and> rows (snd (UserHandler_CreateUser sample_isEmail (NewUserService latin1_lower NewUserRepository)
        (Decoded \<lparr>req_Nombre = [0x20, 0x20, 0x20], req_Apellido = str ''Diaz'',
                  req_Email = str ''ana@example.com'', req_Reparto = [0x09, 0x20]\<rparr>)
        (fresh None 4))) =
      [\<lparr>ID = 1, Nombre = [], Apellido = str ''Diaz'', Email = str ''ana@example.com'',
        Reparto = [], CreatedAt = At 4, UpdatedAt = At 4\<rparr>]"
proof -
  let ?req = "\<lparr>req_Nombre = [0x20, 0x20, 0x20], req_Apellido = str ''Diaz'',
                  req_Email = str ''ana@example.com'', req_Reparto = [0x09, 0x20]\<rparr>"
  have m: "sample_isEmail (str ''ana@example.com'')"
    by (simp add: sample_isEmail_def str_def IsSpace_def Let_def)
  have s: "IsSpace 0x20 \<and> IsSpace 0x09" by (simp add: IsSpace_def)
  have f: "fault (fresh None 4) = None" "seq (fresh None 4) + 1 \<notin> set (map ID (rows (fresh None 4)))"
    "ToLower latin1_lower (TrimSpace (req_Email ?req)) \<notin> set (map Email (rows (fresh None 4)))"
    by (simp_all add: fresh_def)
  have v: "TrimSpace [0x20, 0x20, 0x20] = []" "TrimSpace [0x09, 0x20] = []"
    "TrimSpace (str ''Diaz'') = str ''Diaz''"
    "ToLower latin1_lower (TrimSpace (str ''ana@example.com'')) = str ''ana@example.com''"
    by (simp_all add: TrimSpace_def IsSpace_def ToLower_def str_def unicode_ToLower_def)
  have g: "rows (fresh None 4) = []" "seq (fresh None 4) = 0" "now (fresh None 4) = 4"
    by (simp_all add: fresh_def)
  note inst = blank_field_is_stored_empty [of ?req sample_isEmail "fresh None 4" latin1_lower]
  have "req_Nombre ?req \<noteq> []" "req_Apellido ?req \<noteq> []" "req_Email ?req \<noteq> []"
    "sample_isEmail (req_Email ?req)" "req_Reparto ?req \<noteq> []"
    using m by (simp_all add: str_def)
  from inst [OF this f] show ?thesis using m s by (simp add: v g)
qed

end
